theory Spec2Isabelle
  imports Main "HOL-Library.AList"
begin

section \<open>Marketing calendar backend (app/backend/server.py)\<close>

text \<open>
  The handlers of \<^verbatim>\<open>server.py\<close> as functions on an explicit database state. A
  collection is the list of its documents in insertion order: \<^verbatim>\<open>insert_one\<close>
  appends, and \<^verbatim>\<open>find_one\<close>, \<^verbatim>\<open>update_one\<close> and \<^verbatim>\<open>delete_one\<close> act on the first
  document that matches the filter. The documents have the fields that the handlers write.
  What a handler reads from its environment (a fresh \<^verbatim>\<open>uuid.uuid4()\<close>, the readings of
  \<^verbatim>\<open>datetime.now(timezone.utc)\<close>) is a parameter. An \<^verbatim>\<open>HTTPException\<close> and the 422 of
  a request body that fails pydantic validation are values of a sum type.
\<close>

subsection \<open>Request bodies and field validation\<close>

datatype json = JNull | JStr string | JBool bool | JNum int

text \<open>A JSON object: the value of each key that the body supplies.\<close>

type_synonym body = "string \<rightharpoonup> json"

datatype http_error =
    HTTPException nat string
  | RequestValidationError
  | InternalServerError

definition and_then :: "http_error + 'a \<Rightarrow> ('a \<Rightarrow> http_error + 'b) \<Rightarrow> http_error + 'b" where
  "and_then r f = (case r of Inl e \<Rightarrow> Inl e | Inr v \<Rightarrow> f v)"

text \<open>A field declared \<^verbatim>\<open>name: str\<close>: required, and a string.\<close>

fun required_str :: "json option \<Rightarrow> http_error + string" where
  "required_str (Some (JStr s)) = Inr s"
| "required_str _ = Inl RequestValidationError"

text \<open>A field declared \<^verbatim>\<open>name: str = d\<close>: the default when absent, else a string.\<close>

fun default_str :: "string \<Rightarrow> json option \<Rightarrow> http_error + string" where
  "default_str d None = Inr d"
| "default_str d (Some (JStr s)) = Inr s"
| "default_str d (Some _) = Inl RequestValidationError"

text \<open>A field declared \<^verbatim>\<open>name: Optional[str] = d\<close>: the default when absent, \<^verbatim>\<open>None\<close>
  when the body gives null, else a string.\<close>

fun optional_str :: "string option \<Rightarrow> json option \<Rightarrow> http_error + string option" where
  "optional_str d None = Inr d"
| "optional_str d (Some JNull) = Inr None"
| "optional_str d (Some (JStr s)) = Inr (Some s)"
| "optional_str d (Some _) = Inl RequestValidationError"

subsection \<open>Timestamps\<close>

text \<open>A \<^verbatim>\<open>datetime\<close> in UTC, as microseconds since the epoch. A document stores the
  ISO-8601 string of a timestamp; \<^verbatim>\<open>fromisoformat\<close> reads back the datetime that
  \<^verbatim>\<open>isoformat\<close> wrote.\<close>

type_synonym datetime = int

datatype isostring = Iso datetime

definition isoformat :: "datetime \<Rightarrow> isostring" where
  "isoformat t = Iso t"

fun fromisoformat :: "isostring \<Rightarrow> datetime" where
  "fromisoformat (Iso t) = t"

subsection \<open>The pydantic models\<close>

record Campaign =
  c_id :: string
  c_title :: string
  c_description :: "string option"
  c_channel :: string
  c_status :: string
  c_date :: string
  c_time :: "string option"
  c_color :: string
  c_created_at :: datetime
  c_updated_at :: datetime

record CampaignCreate =
  cc_title :: string
  cc_description :: "string option"
  cc_channel :: string
  cc_status :: string
  cc_date :: string
  cc_time :: "string option"
  cc_color :: string

record CampaignUpdate =
  cu_title :: "string option"
  cu_description :: "string option"
  cu_channel :: "string option"
  cu_status :: "string option"
  cu_date :: "string option"
  cu_time :: "string option"
  cu_color :: "string option"

record Channel =
  ch_id :: string
  ch_name :: string
  ch_label :: string
  ch_color :: string
  ch_is_default :: bool
  ch_created_at :: datetime

record ChannelCreate =
  chc_name :: string
  chc_label :: string
  chc_color :: string

record Template =
  t_id :: string
  t_name :: string
  t_description :: string
  t_channel :: string
  t_default_content :: string

text \<open>Validation of a request body against \<^verbatim>\<open>CampaignCreate\<close>, \<^verbatim>\<open>CampaignUpdate\<close> and
  \<^verbatim>\<open>ChannelCreate\<close>. Keys that the model does not declare are ignored.\<close>

definition validate_CampaignCreate :: "body \<Rightarrow> http_error + CampaignCreate" where
  "validate_CampaignCreate b =
     and_then (required_str (b ''title'')) (\<lambda>title.
     and_then (optional_str (Some '''') (b ''description'')) (\<lambda>description.
     and_then (required_str (b ''channel'')) (\<lambda>channel.
     and_then (default_str ''draft'' (b ''status'')) (\<lambda>status.
     and_then (required_str (b ''date'')) (\<lambda>date.
     and_then (optional_str (Some ''09:00'') (b ''time'')) (\<lambda>time.
     and_then (required_str (b ''color'')) (\<lambda>color.
       Inr \<lparr>cc_title = title, cc_description = description, cc_channel = channel,
            cc_status = status, cc_date = date, cc_time = time, cc_color = color\<rparr>)))))))"

definition validate_CampaignUpdate :: "body \<Rightarrow> http_error + CampaignUpdate" where
  "validate_CampaignUpdate b =
     and_then (optional_str None (b ''title'')) (\<lambda>title.
     and_then (optional_str None (b ''description'')) (\<lambda>description.
     and_then (optional_str None (b ''channel'')) (\<lambda>channel.
     and_then (optional_str None (b ''status'')) (\<lambda>status.
     and_then (optional_str None (b ''date'')) (\<lambda>date.
     and_then (optional_str None (b ''time'')) (\<lambda>time.
     and_then (optional_str None (b ''color'')) (\<lambda>color.
       Inr \<lparr>cu_title = title, cu_description = description, cu_channel = channel,
            cu_status = status, cu_date = date, cu_time = time, cu_color = color\<rparr>)))))))"

definition validate_ChannelCreate :: "body \<Rightarrow> http_error + ChannelCreate" where
  "validate_ChannelCreate b =
     and_then (required_str (b ''name'')) (\<lambda>name.
     and_then (required_str (b ''label'')) (\<lambda>label.
     and_then (required_str (b ''color'')) (\<lambda>color.
       Inr \<lparr>chc_name = name, chc_label = label, chc_color = color\<rparr>)))"

subsection \<open>The document store\<close>

text \<open>The stored documents: \<^verbatim>\<open>model_dump()\<close> of the model with the timestamps
  replaced by their ISO strings.\<close>

record CampaignDoc =
  d_id :: string
  d_title :: string
  d_description :: "string option"
  d_channel :: string
  d_status :: string
  d_date :: string
  d_time :: "string option"
  d_color :: string
  d_created_at :: isostring
  d_updated_at :: isostring

record ChannelDoc =
  chd_id :: string
  chd_name :: string
  chd_label :: string
  chd_color :: string
  chd_is_default :: bool
  chd_created_at :: isostring

record database =
  campaigns :: "CampaignDoc list"
  channels :: "ChannelDoc list"

definition empty_db :: database where
  "empty_db = \<lparr>campaigns = [], channels = []\<rparr>"

definition insert_one :: "'a \<Rightarrow> 'a list \<Rightarrow> 'a list" where
  "insert_one doc coll = coll @ [doc]"

definition find_one :: "('a \<Rightarrow> bool) \<Rightarrow> 'a list \<Rightarrow> 'a option" where
  "find_one q coll = find q coll"

fun update_one :: "('a \<Rightarrow> bool) \<Rightarrow> ('a \<Rightarrow> 'a) \<Rightarrow> 'a list \<Rightarrow> 'a list" where
  "update_one q upd [] = []"
| "update_one q upd (x # xs) = (if q x then upd x # xs else x # update_one q upd xs)"

text \<open>\<^verbatim>\<open>delete_one\<close> gives the collection and its \<^verbatim>\<open>deleted_count\<close>.\<close>

fun delete_one :: "('a \<Rightarrow> bool) \<Rightarrow> 'a list \<Rightarrow> 'a list \<times> nat" where
  "delete_one q [] = ([], 0)"
| "delete_one q (x # xs) =
     (if q x then (xs, 1) else (case delete_one q xs of (ys, n) \<Rightarrow> (x # ys, n)))"

definition count_documents :: "('a \<Rightarrow> bool) \<Rightarrow> 'a list \<Rightarrow> nat" where
  "count_documents q coll = length (filter q coll)"

text \<open>What a request reads from outside: the \<^verbatim>\<open>uuid4\<close> of its default factory, and
  the \<open>k\<close>-th reading of the clock during the request.\<close>

record env =
  uuid4 :: string
  utcnow :: "nat \<Rightarrow> datetime"

text \<open>Lines 92-94 and 186-187: the document written for a model object.\<close>

definition campaign_doc :: "Campaign \<Rightarrow> CampaignDoc" where
  "campaign_doc c =
     \<lparr>d_id = c_id c, d_title = c_title c, d_description = c_description c,
      d_channel = c_channel c, d_status = c_status c, d_date = c_date c, d_time = c_time c,
      d_color = c_color c, d_created_at = isoformat (c_created_at c),
      d_updated_at = isoformat (c_updated_at c)\<rparr>"

definition channel_doc :: "Channel \<Rightarrow> ChannelDoc" where
  "channel_doc c =
     \<lparr>chd_id = ch_id c, chd_name = ch_name c, chd_label = ch_label c, chd_color = ch_color c,
      chd_is_default = ch_is_default c, chd_created_at = isoformat (ch_created_at c)\<rparr>"

text \<open>Lines 105-108, 120-123, 145-148 and 168-169: a document read back, its ISO strings
  parsed.\<close>

definition load_campaign :: "CampaignDoc \<Rightarrow> Campaign" where
  "load_campaign d =
     \<lparr>c_id = d_id d, c_title = d_title d, c_description = d_description d,
      c_channel = d_channel d, c_status = d_status d, c_date = d_date d, c_time = d_time d,
      c_color = d_color d, c_created_at = fromisoformat (d_created_at d),
      c_updated_at = fromisoformat (d_updated_at d)\<rparr>"

definition load_channel :: "ChannelDoc \<Rightarrow> Channel" where
  "load_channel d =
     \<lparr>ch_id = chd_id d, ch_name = chd_name d, ch_label = chd_label d, ch_color = chd_color d,
      ch_is_default = chd_is_default d, ch_created_at = fromisoformat (chd_created_at d)\<rparr>"

subsection \<open>Campaign handlers\<close>

text \<open>Line 90, \<^verbatim>\<open>Campaign(**campaign_dict)\<close>: the id and the two timestamps come from the
  default factories, each timestamp from its own reading of the clock.\<close>

definition new_Campaign :: "env \<Rightarrow> CampaignCreate \<Rightarrow> Campaign" where
  "new_Campaign e input =
     \<lparr>c_id = uuid4 e, c_title = cc_title input, c_description = cc_description input,
      c_channel = cc_channel input, c_status = cc_status input, c_date = cc_date input,
      c_time = cc_time input, c_color = cc_color input,
      c_created_at = utcnow e 0, c_updated_at = utcnow e 1\<rparr>"

definition create_campaign ::
  "env \<Rightarrow> CampaignCreate \<Rightarrow> database \<Rightarrow> (http_error + Campaign) \<times> database" where
  "create_campaign e input db =
     (let campaign_obj = new_Campaign e input;
          doc = campaign_doc campaign_obj
      in (Inr campaign_obj, db\<lparr>campaigns := insert_one doc (campaigns db)\<rparr>))"

definition get_campaigns :: "database \<Rightarrow> Campaign list" where
  "get_campaigns db = map load_campaign (take 1000 (campaigns db))"

definition get_campaign :: "string \<Rightarrow> database \<Rightarrow> http_error + Campaign" where
  "get_campaign campaign_id db =
     (case find_one (\<lambda>d. d_id d = campaign_id) (campaigns db) of
        None \<Rightarrow> Inl (HTTPException 404 ''Campaign not found'')
      | Some campaign \<Rightarrow> Inr (load_campaign campaign))"

text \<open>Lines 135-141: \<^verbatim>\<open>$set\<close> of the fields of the input that are not \<^verbatim>\<open>None\<close>, and of
  \<^verbatim>\<open>updated_at\<close>.\<close>

definition set_update_data :: "CampaignUpdate \<Rightarrow> isostring \<Rightarrow> CampaignDoc \<Rightarrow> CampaignDoc" where
  "set_update_data input now d =
     d\<lparr>d_title := (case cu_title input of None \<Rightarrow> d_title d | Some v \<Rightarrow> v),
       d_description := (case cu_description input of None \<Rightarrow> d_description d | Some v \<Rightarrow> Some v),
       d_channel := (case cu_channel input of None \<Rightarrow> d_channel d | Some v \<Rightarrow> v),
       d_status := (case cu_status input of None \<Rightarrow> d_status d | Some v \<Rightarrow> v),
       d_date := (case cu_date input of None \<Rightarrow> d_date d | Some v \<Rightarrow> v),
       d_time := (case cu_time input of None \<Rightarrow> d_time d | Some v \<Rightarrow> Some v),
       d_color := (case cu_color input of None \<Rightarrow> d_color d | Some v \<Rightarrow> v),
       d_updated_at := now\<rparr>"

definition update_campaign ::
  "env \<Rightarrow> string \<Rightarrow> CampaignUpdate \<Rightarrow> database \<Rightarrow> (http_error + Campaign) \<times> database" where
  "update_campaign e campaign_id input db =
     (case find_one (\<lambda>d. d_id d = campaign_id) (campaigns db) of
        None \<Rightarrow> (Inl (HTTPException 404 ''Campaign not found''), db)
      | Some campaign \<Rightarrow>
          (let db' = db\<lparr>campaigns :=
                 update_one (\<lambda>d. d_id d = campaign_id)
                   (set_update_data input (isoformat (utcnow e 0))) (campaigns db)\<rparr>
           in case find_one (\<lambda>d. d_id d = campaign_id) (campaigns db') of
                None \<Rightarrow> (Inl InternalServerError, db')
              | Some updated_campaign \<Rightarrow> (Inr (load_campaign updated_campaign), db')))"

definition delete_campaign :: "string \<Rightarrow> database \<Rightarrow> (http_error + string) \<times> database" where
  "delete_campaign campaign_id db =
     (case delete_one (\<lambda>d. d_id d = campaign_id) (campaigns db) of
        (coll, deleted_count) \<Rightarrow>
          if deleted_count = 0 then (Inl (HTTPException 404 ''Campaign not found''), db)
          else (Inr ''Campaign deleted successfully'', db\<lparr>campaigns := coll\<rparr>))"

subsection \<open>Channel handlers\<close>

definition default_channels :: "env \<Rightarrow> Channel list" where
  "default_channels e =
     [\<lparr>ch_id = ''social'', ch_name = ''social'', ch_label = ''Social Media'',
       ch_color = ''#FF6B6B'', ch_is_default = True, ch_created_at = utcnow e 0\<rparr>,
      \<lparr>ch_id = ''email'', ch_name = ''email'', ch_label = ''Email'',
       ch_color = ''#4ECDC4'', ch_is_default = True, ch_created_at = utcnow e 1\<rparr>,
      \<lparr>ch_id = ''blog'', ch_name = ''blog'', ch_label = ''Blog'',
       ch_color = ''#FFE66D'', ch_is_default = True, ch_created_at = utcnow e 2\<rparr>,
      \<lparr>ch_id = ''ads'', ch_name = ''ads'', ch_label = ''Ads'',
       ch_color = ''#1A535C'', ch_is_default = True, ch_created_at = utcnow e 3\<rparr>]"

definition get_channels :: "env \<Rightarrow> database \<Rightarrow> Channel list" where
  "get_channels e db =
     (let custom_channels = map load_channel (take 1000 (channels db))
      in default_channels e @ custom_channels)"

text \<open>Line 184, \<^verbatim>\<open>Channel(**channel_dict)\<close>: the input has no \<^verbatim>\<open>id\<close> and no
  \<^verbatim>\<open>is_default\<close>, so both take their defaults.\<close>

definition new_Channel :: "env \<Rightarrow> ChannelCreate \<Rightarrow> Channel" where
  "new_Channel e input =
     \<lparr>ch_id = uuid4 e, ch_name = chc_name input, ch_label = chc_label input,
      ch_color = chc_color input, ch_is_default = False, ch_created_at = utcnow e 0\<rparr>"

definition create_channel ::
  "env \<Rightarrow> ChannelCreate \<Rightarrow> database \<Rightarrow> (http_error + Channel) \<times> database" where
  "create_channel e input db =
     (let channel_obj = new_Channel e input;
          doc = channel_doc channel_obj
      in (Inr channel_obj, db\<lparr>channels := insert_one doc (channels db)\<rparr>))"

text \<open>Python's \<^verbatim>\<open>str\<close> of a count, as the f-string of line 205 formats it.\<close>

definition digit_char :: "nat \<Rightarrow> char" where
  "digit_char d = ''0123456789'' ! d"

function str_nat :: "nat \<Rightarrow> string" where
  "str_nat n = (if n < 10 then [digit_char n] else str_nat (n div 10) @ [digit_char (n mod 10)])"
  by pat_completeness auto
termination
  by (relation "measure id") auto

declare str_nat.simps [simp del]

definition delete_channel :: "string \<Rightarrow> database \<Rightarrow> (http_error + string) \<times> database" where
  "delete_channel channel_id db =
     (case find_one (\<lambda>d. chd_id d = channel_id) (channels db) of
        None \<Rightarrow> (Inl (HTTPException 404 ''Channel not found''), db)
      | Some channel \<Rightarrow>
          if chd_is_default channel
          then (Inl (HTTPException 400 ''Cannot delete default channels''), db)
          else
            (let campaigns_count =
                   count_documents (\<lambda>d. d_channel d = chd_name channel) (campaigns db)
             in if campaigns_count > 0
                then (Inl (HTTPException 400
                        (''Cannot delete channel. '' @ str_nat campaigns_count @
                         '' campaigns are using it'')), db)
                else (Inr ''Channel deleted successfully'',
                      db\<lparr>channels := fst (delete_one (\<lambda>d. chd_id d = channel_id) (channels db))\<rparr>)))"

subsection \<open>Templates and statistics\<close>

definition get_templates :: "Template list" where
  "get_templates =
     [\<lparr>t_id = ''1'', t_name = ''Product Launch'',
       t_description = ''Comprehensive campaign for new product launches'',
       t_channel = ''social'', t_default_content = ''Introducing our latest innovation!''\<rparr>,
      \<lparr>t_id = ''2'', t_name = ''Newsletter'',
       t_description = ''Weekly or monthly newsletter template'',
       t_channel = ''email'', t_default_content = ''Your weekly update from our team''\<rparr>,
      \<lparr>t_id = ''3'', t_name = ''Blog Post'',
       t_description = ''SEO-optimized blog content strategy'',
       t_channel = ''blog'', t_default_content = ''Expert insights on...''\<rparr>,
      \<lparr>t_id = ''4'', t_name = ''Ad Campaign'',
       t_description = ''Paid advertising campaign template'',
       t_channel = ''ads'', t_default_content = ''Limited time offer!''\<rparr>]"

text \<open>The dictionaries of the statistics keep their keys in insertion order; assigning to a
  key that is present replaces its value in place.\<close>

record Stats =
  total :: nat
  by_status :: "(string \<times> nat) list"
  by_channel :: "(string \<times> nat) list"

definition get_stats :: "env \<Rightarrow> database \<Rightarrow> Stats" where
  "get_stats e db =
     (let total_campaigns = count_documents (\<lambda>d. True) (campaigns db);
          draft_count = count_documents (\<lambda>d. d_status d = ''draft'') (campaigns db);
          scheduled_count = count_documents (\<lambda>d. d_status d = ''scheduled'') (campaigns db);
          published_count = count_documents (\<lambda>d. d_status d = ''published'') (campaigns db);
          channels = get_channels e db;
          channel_counts =
            foldl (\<lambda>counts channel.
                     AList.update (ch_name channel)
                       (count_documents (\<lambda>d. d_channel d = ch_name channel) (campaigns db))
                       counts)
              [] channels
      in \<lparr>total = total_campaigns,
          by_status = [(''draft'', draft_count), (''scheduled'', scheduled_count),
                       (''published'', published_count)],
          by_channel = channel_counts\<rparr>)"

subsection \<open>The API\<close>

datatype request =
    GetRoot
  | PostCampaigns body
  | GetCampaigns
  | GetCampaign string
  | PutCampaign string body
  | DeleteCampaign string
  | GetChannels
  | PostChannels body
  | DeleteChannel string
  | GetTemplates
  | GetStats

datatype response =
    Message string
  | OneCampaign Campaign
  | CampaignList "Campaign list"
  | OneChannel Channel
  | ChannelList "Channel list"
  | TemplateList "Template list"
  | StatsResult Stats

definition respond ::
  "('a \<Rightarrow> response) \<Rightarrow> (http_error + 'a) \<times> database \<Rightarrow> (http_error + response) \<times> database" where
  "respond wrap r = (map_sum (\<lambda>e. e) wrap (fst r), snd r)"

text \<open>The router: the body of a POST or PUT is validated against the handler's input model
  before the handler runs; a body that fails is answered with 422 and the handler does not
  run.\<close>

fun api :: "env \<Rightarrow> request \<Rightarrow> database \<Rightarrow> (http_error + response) \<times> database" where
  "api e GetRoot db = (Inr (Message ''Marketing Calendar API''), db)"
| "api e (PostCampaigns b) db =
     (case validate_CampaignCreate b of
        Inl err \<Rightarrow> (Inl err, db)
      | Inr input \<Rightarrow> respond OneCampaign (create_campaign e input db))"
| "api e GetCampaigns db = (Inr (CampaignList (get_campaigns db)), db)"
| "api e (GetCampaign campaign_id) db = (map_sum (\<lambda>e. e) OneCampaign (get_campaign campaign_id db), db)"
| "api e (PutCampaign campaign_id b) db =
     (case validate_CampaignUpdate b of
        Inl err \<Rightarrow> (Inl err, db)
      | Inr input \<Rightarrow> respond OneCampaign (update_campaign e campaign_id input db))"
| "api e (DeleteCampaign campaign_id) db = respond Message (delete_campaign campaign_id db)"
| "api e GetChannels db = (Inr (ChannelList (get_channels e db)), db)"
| "api e (PostChannels b) db =
     (case validate_ChannelCreate b of
        Inl err \<Rightarrow> (Inl err, db)
      | Inr input \<Rightarrow> respond OneChannel (create_channel e input db))"
| "api e (DeleteChannel channel_id) db = respond Message (delete_channel channel_id db)"
| "api e GetTemplates db = (Inr (TemplateList get_templates), db)"
| "api e GetStats db = (Inr (StatsResult (get_stats e db)), db)"

text \<open>The database after a sequence of requests, each with its environment.\<close>

fun run :: "(env \<times> request) list \<Rightarrow> database \<Rightarrow> database" where
  "run [] db = db"
| "run ((e, r) # rest) db = run rest (snd (api e r db))"

subsection \<open>Example requests\<close>

text \<open>An environment whose \<^verbatim>\<open>uuid4\<close> is \<open>u\<close> and whose clock starts at \<open>t\<close> and advances
  by one microsecond per reading.\<close>

definition env_at :: "string \<Rightarrow> datetime \<Rightarrow> env" where
  "env_at u t = \<lparr>uuid4 = u, utcnow = (\<lambda>k. t + int k)\<rparr>"

text \<open>The body that \<^verbatim>\<open>test_create_campaign\<close> of \<^verbatim>\<open>backend_test.py\<close> posts (lines 93-100; the
  date is tomorrow's there), and the same body with the colour of its channel added.\<close>

definition test_create_body :: body where
  "test_create_body =
     [''title'' \<mapsto> JStr ''Test Campaign 1'',
      ''description'' \<mapsto> JStr ''Test campaign description'',
      ''channel'' \<mapsto> JStr ''social'',
      ''status'' \<mapsto> JStr ''draft'',
      ''date'' \<mapsto> JStr ''2025-01-01'',
      ''time'' \<mapsto> JStr ''10:00'']"

definition social_body :: body where
  "social_body = test_create_body(''color'' \<mapsto> JStr ''#FF6B6B'')"

text \<open>The body that \<^verbatim>\<open>test_update_campaign\<close> puts (lines 125-129).\<close>

definition test_update_body :: body where
  "test_update_body =
     [''title'' \<mapsto> JStr ''Updated Test Campaign'',
      ''channel'' \<mapsto> JStr ''email'',
      ''status'' \<mapsto> JStr ''scheduled'']"

text \<open>A custom channel, and a campaign on it.\<close>

definition podcast_channel_body :: body where
  "podcast_channel_body =
     [''name'' \<mapsto> JStr ''podcast'', ''label'' \<mapsto> JStr ''Podcast'',
      ''color'' \<mapsto> JStr ''#123456'',
      ''is_default'' \<mapsto> JBool True, ''id'' \<mapsto> JStr ''social'']"

definition podcast_body :: body where
  "podcast_body =
     [''title'' \<mapsto> JStr ''Episode'', ''channel'' \<mapsto> JStr ''podcast'',
      ''date'' \<mapsto> JStr ''2025-02-01'', ''color'' \<mapsto> JStr ''#123456'',
      ''description'' \<mapsto> JNull]"

definition podcast_doc :: ChannelDoc where
  "podcast_doc =
     \<lparr>chd_id = ''id-1'', chd_name = ''podcast'', chd_label = ''Podcast'',
      chd_color = ''#123456'', chd_is_default = False, chd_created_at = Iso 1000\<rparr>"

definition idle_db :: database where
  "idle_db = run [(env_at ''id-1'' 1000, PostChannels podcast_channel_body)] empty_db"

definition busy_db :: database where
  "busy_db =
     run [(env_at ''id-2'' 2000, PostCampaigns podcast_body),
          (env_at ''id-3'' 3000, PostCampaigns social_body),
          (env_at ''id-4'' 4000, PostCampaigns podcast_body)] idle_db"

text \<open>An update body that gives every field as null.\<close>

definition all_null_body :: body where
  "all_null_body =
     [''title'' \<mapsto> JNull, ''description'' \<mapsto> JNull, ''channel'' \<mapsto> JNull,
      ''status'' \<mapsto> JNull, ''date'' \<mapsto> JNull, ''time'' \<mapsto> JNull, ''color'' \<mapsto> JNull]"

text \<open>What it is for a string to state a number: \<open>ds\<close> is the decimal numeral of \<open>n\<close> when
  it is a non-empty string of the digits 0 to 9, with no leading zero unless it is the numeral
  0 itself, whose value read from the left in base ten is \<open>n\<close>. This says what the message of
  line 205 must hold without reference to how \<open>str_nat\<close> builds it.\<close>

definition decimal_digit :: "char \<Rightarrow> nat option" where
  "decimal_digit c =
     map_of [(CHR ''0'', 0), (CHR ''1'', 1), (CHR ''2'', 2), (CHR ''3'', 3), (CHR ''4'', 4),
             (CHR ''5'', 5), (CHR ''6'', 6), (CHR ''7'', 7), (CHR ''8'', 8), (CHR ''9'', 9)] c"

fun decimal_value_from :: "nat \<Rightarrow> string \<Rightarrow> nat option" where
  "decimal_value_from acc [] = Some acc"
| "decimal_value_from acc (c # cs) =
     (case decimal_digit c of
        None \<Rightarrow> None
      | Some d \<Rightarrow> decimal_value_from (10 * acc + d) cs)"

definition is_decimal_of :: "string \<Rightarrow> nat \<Rightarrow> bool" where
  "is_decimal_of ds n \<longleftrightarrow>
     ds \<noteq> [] \<and> (ds = ''0'' \<or> hd ds \<noteq> CHR ''0'') \<and> decimal_value_from 0 ds = Some n"

text \<open>The campaign that the third request of \<open>busy_db\<close> stores, and the input that
  \<open>test_update_body\<close> validates to.\<close>

definition test_campaign_doc :: CampaignDoc where
  "test_campaign_doc =
     \<lparr>d_id = ''id-3'', d_title = ''Test Campaign 1'',
      d_description = Some ''Test campaign description'', d_channel = ''social'',
      d_status = ''draft'', d_date = ''2025-01-01'', d_time = Some ''10:00'',
      d_color = ''#FF6B6B'', d_created_at = Iso 3000, d_updated_at = Iso 3001\<rparr>"


section \<open>Properties\<close>

subsection \<open>Validation\<close>

lemma required_str_error: "required_str x = Inl err \<Longrightarrow> err = RequestValidationError"
  by (cases x rule: required_str.cases) auto

lemma default_str_error: "default_str d x = Inl err \<Longrightarrow> err = RequestValidationError"
  by (cases "(d, x)" rule: default_str.cases) auto

lemma optional_str_error: "optional_str d x = Inl err \<Longrightarrow> err = RequestValidationError"
  by (cases "(d, x)" rule: optional_str.cases) auto

lemma validate_CampaignCreate_no_color:
  "b ''color'' = None \<Longrightarrow> validate_CampaignCreate b = Inl RequestValidationError"
  by (auto simp: validate_CampaignCreate_def and_then_def split: sum.splits
      dest: required_str_error default_str_error optional_str_error)

subsection \<open>The first matching document\<close>

lemma find_one_Some_iff:
  "find_one q xs = Some x \<longleftrightarrow> (\<exists>i<length xs. xs ! i = x \<and> q x \<and> (\<forall>j<i. \<not> q (xs ! j)))"
  by (auto simp: find_one_def find_Some_iff)

lemma find_one_None_iff: "find_one q xs = None \<longleftrightarrow> (\<forall>x\<in>set xs. \<not> q x)"
  by (auto simp: find_one_def find_None_iff)

lemma find_one_append:
  "find_one q (xs @ ys) = (case find_one q xs of None \<Rightarrow> find_one q ys | Some x \<Rightarrow> Some x)"
  by (induction xs) (auto simp: find_one_def)

lemma update_one_first:
  "find_one q xs = Some x \<Longrightarrow>
   \<exists>i<length xs. xs ! i = x \<and> (\<forall>j<i. \<not> q (xs ! j)) \<and> update_one q upd xs = xs[i := upd x]"
proof (induction xs)
  case Nil
  then show ?case by (simp add: find_one_def)
next
  case (Cons y ys)
  show ?case
  proof (cases "q y")
    case True
    with Cons.prems have "y = x" by (simp add: find_one_def)
    with True show ?thesis by (intro exI[of _ 0]) simp
  next
    case False
    with Cons.prems have "find_one q ys = Some x" by (simp add: find_one_def)
    from Cons.IH[OF this] obtain i where
      i: "i < length ys" "ys ! i = x" "\<forall>j<i. \<not> q (ys ! j)" "update_one q upd ys = ys[i := upd x]"
      by blast
    have "\<forall>j<Suc i. \<not> q ((y # ys) ! j)"
      using False i(3) by (auto simp: nth_Cons split: nat.splits)
    with i False show ?thesis by (intro exI[of _ "Suc i"]) simp
  qed
qed

lemma find_one_update_one:
  "find_one q xs = Some x \<Longrightarrow> q (upd x) \<Longrightarrow> find_one q (update_one q upd xs) = Some (upd x)"
  by (induction xs) (auto simp: find_one_def)

lemma find_one_holds: "find_one q xs = Some x \<Longrightarrow> q x"
  by (auto simp: find_one_def find_Some_iff)

lemma delete_one_found:
  "find_one q xs = Some x \<Longrightarrow> delete_one q xs = (remove1 x xs, 1)"
proof (induction xs)
  case Nil
  then show ?case by (simp add: find_one_def)
next
  case (Cons y ys)
  show ?case
  proof (cases "q y")
    case True
    with Cons.prems show ?thesis by (simp add: find_one_def)
  next
    case False
    with Cons.prems have found: "find_one q ys = Some x" by (simp add: find_one_def)
    then have "q x" by (rule find_one_holds)
    with False have "x \<noteq> y" by auto
    with False Cons.IH[OF found] show ?thesis by simp
  qed
qed

lemma delete_one_absent:
  "find_one q xs = None \<Longrightarrow> delete_one q xs = (xs, 0)"
  by (induction xs) (auto simp: find_one_def split: if_splits)

lemma load_campaign_doc: "load_campaign (campaign_doc c) = c"
  by (simp add: load_campaign_def campaign_doc_def isoformat_def)

lemma delete_one_subset: "set (fst (delete_one q xs)) \<subseteq> set xs"
  by (induction xs) (auto split: prod.splits)

subsection \<open>Decimal numerals\<close>

lemma decimal_digit_char_all: "\<forall>d\<in>set [0..<10]. decimal_digit (digit_char d) = Some d"
  by code_simp

lemma decimal_digit_char: "d < 10 \<Longrightarrow> decimal_digit (digit_char d) = Some d"
  using decimal_digit_char_all by simp

lemma digit_char_nonzero_all: "\<forall>d\<in>set [1..<10]. digit_char d \<noteq> CHR ''0''"
  by code_simp

lemma digit_char_nonzero: "0 < d \<Longrightarrow> d < 10 \<Longrightarrow> digit_char d \<noteq> CHR ''0''"
  using digit_char_nonzero_all by simp

lemma decimal_value_from_append:
  "decimal_value_from acc (xs @ [c]) =
     (case decimal_value_from acc xs of
        None \<Rightarrow> None
      | Some m \<Rightarrow> (case decimal_digit c of None \<Rightarrow> None | Some d \<Rightarrow> Some (10 * m + d)))"
  by (induction xs arbitrary: acc) (auto split: option.splits)

lemma str_nat_nonempty: "str_nat n \<noteq> []"
  by (subst str_nat.simps) simp

lemma decimal_value_str_nat: "decimal_value_from 0 (str_nat n) = Some n"
proof (induction n rule: str_nat.induct)
  case (1 n)
  show ?case
  proof (cases "n < 10")
    case True
    then show ?thesis
      by (subst str_nat.simps) (simp add: decimal_digit_char)
  next
    case False
    with 1 have "decimal_value_from 0 (str_nat (n div 10)) = Some (n div 10)" by simp
    moreover have "decimal_digit (digit_char (n mod 10)) = Some (n mod 10)"
      by (simp add: decimal_digit_char)
    ultimately show ?thesis using False
      by (subst str_nat.simps) (simp add: decimal_value_from_append)
  qed
qed

lemma hd_str_nat: "0 < n \<Longrightarrow> hd (str_nat n) \<noteq> CHR ''0''"
proof (induction n rule: str_nat.induct)
  case (1 n)
  show ?case
  proof (cases "n < 10")
    case True
    with "1.prems" show ?thesis
      by (subst str_nat.simps) (simp add: digit_char_nonzero)
  next
    case False
    then have "0 < n div 10" by simp
    with 1 False have "hd (str_nat (n div 10)) \<noteq> CHR ''0''" by simp
    with False show ?thesis
      by (subst str_nat.simps) (simp add: str_nat_nonempty)
  qed
qed

lemma str_nat_is_decimal: "0 < n \<Longrightarrow> is_decimal_of (str_nat n) n"
  by (simp add: is_decimal_of_def str_nat_nonempty hd_str_nat decimal_value_str_nat)

text \<open>The numeral of a number is unique: a string that is the decimal numeral of \<open>n\<close> is the
  string that \<open>str_nat\<close> writes, character for character.\<close>

lemma decimal_digit_Some: "decimal_digit c = Some d \<Longrightarrow> d < 10 \<and> digit_char d = c"
  by (auto simp: decimal_digit_def digit_char_def split: if_splits)

lemma decimal_digit_positive:
  "decimal_digit c = Some d \<Longrightarrow> c \<noteq> CHR ''0'' \<Longrightarrow> 0 < d"
  by (auto simp: decimal_digit_def split: if_splits)

lemma decimal_value_from_mono: "decimal_value_from acc cs = Some v \<Longrightarrow> acc \<le> v"
proof (induction cs arbitrary: acc)
  case Nil
  then show ?case by simp
next
  case (Cons c cs)
  from Cons.prems obtain d where d: "decimal_digit c = Some d"
    and rest: "decimal_value_from (10 * acc + d) cs = Some v"
    by (auto split: option.splits)
  from Cons.IH[OF rest] show ?case by simp
qed

lemma decimal_value_positive:
  assumes "cs \<noteq> []" and "hd cs \<noteq> CHR ''0''" and "decimal_value_from 0 cs = Some v"
  shows "0 < v"
proof -
  from assms(1) obtain c cs' where cs: "cs = c # cs'" by (cases cs) auto
  with assms(3) obtain d where d: "decimal_digit c = Some d"
    and rest: "decimal_value_from d cs' = Some v"
    by (auto split: option.splits)
  from d assms(2) cs have "0 < d" by (simp add: decimal_digit_positive)
  with decimal_value_from_mono[OF rest] show ?thesis by simp
qed

lemma is_decimal_of_str_nat: "is_decimal_of ds n \<Longrightarrow> ds = str_nat n"
proof (induction ds arbitrary: n rule: rev_induct)
  case Nil
  then show ?case by (simp add: is_decimal_of_def)
next
  case (snoc c xs)
  from snoc.prems have val: "decimal_value_from 0 (xs @ [c]) = Some n"
    and lead: "xs @ [c] = ''0'' \<or> hd (xs @ [c]) \<noteq> CHR ''0''"
    by (simp_all add: is_decimal_of_def)
  from val obtain m d where m: "decimal_value_from 0 xs = Some m"
    and d: "decimal_digit c = Some d" and n: "n = 10 * m + d"
    by (auto simp: decimal_value_from_append split: option.splits)
  from decimal_digit_Some[OF d] have d10: "d < 10" and c: "digit_char d = c" by simp_all
  show ?case
  proof (cases "xs = []")
    case True
    with m have "m = 0" by simp
    with n d10 have "n < 10" "n = d" by simp_all
    with c True show ?thesis by (subst str_nat.simps) simp
  next
    case False
    with lead have hd_xs: "hd xs \<noteq> CHR ''0''" by (cases xs) auto
    with False m have "is_decimal_of xs m" by (simp add: is_decimal_of_def)
    then have xs: "xs = str_nat m" by (rule snoc.IH)
    from decimal_value_positive[OF False hd_xs m] have "0 < m" .
    with n d10 have "\<not> n < 10" "n div 10 = m" "n mod 10 = d" by simp_all
    with xs c show ?thesis by (subst str_nat.simps) simp
  qed
qed

lemma is_decimal_of_unique: "is_decimal_of ds n \<Longrightarrow> is_decimal_of ds' n \<Longrightarrow> ds = ds'"
  using is_decimal_of_str_nat[of ds n] is_decimal_of_str_nat[of ds' n] by simp

subsection \<open>The example databases\<close>

lemmas example_defs =
  empty_db_def env_at_def podcast_channel_body_def podcast_body_def social_body_def
  test_create_body_def test_update_body_def all_null_body_def
  validate_ChannelCreate_def validate_CampaignCreate_def validate_CampaignUpdate_def
  and_then_def respond_def create_channel_def create_campaign_def new_Channel_def
  new_Campaign_def channel_doc_def campaign_doc_def insert_one_def isoformat_def

lemma idle_db_value: "idle_db = \<lparr>campaigns = [], channels = [podcast_doc]\<rparr>"
  by (simp add: idle_db_def example_defs podcast_doc_def)

lemma busy_db_value:
  "busy_db =
     \<lparr>campaigns =
        [\<lparr>d_id = ''id-2'', d_title = ''Episode'', d_description = None,
          d_channel = ''podcast'', d_status = ''draft'', d_date = ''2025-02-01'',
          d_time = Some ''09:00'', d_color = ''#123456'', d_created_at = Iso 2000,
          d_updated_at = Iso 2001\<rparr>,
         \<lparr>d_id = ''id-3'', d_title = ''Test Campaign 1'',
          d_description = Some ''Test campaign description'', d_channel = ''social'',
          d_status = ''draft'', d_date = ''2025-01-01'', d_time = Some ''10:00'',
          d_color = ''#FF6B6B'', d_created_at = Iso 3000, d_updated_at = Iso 3001\<rparr>,
         \<lparr>d_id = ''id-4'', d_title = ''Episode'', d_description = None,
          d_channel = ''podcast'', d_status = ''draft'', d_date = ''2025-02-01'',
          d_time = Some ''09:00'', d_color = ''#123456'', d_created_at = Iso 4000,
          d_updated_at = Iso 4001\<rparr>],
      channels = [podcast_doc]\<rparr>"
  by (simp add: busy_db_def idle_db_value example_defs)

subsection \<open>The channel counts of the statistics\<close>

lemma channel_counts_map_of:
  "map_of (foldl (\<lambda>counts channel. AList.update (ch_name channel) (cnt (ch_name channel)) counts) acc chs) k =
     (if k \<in> ch_name ` set chs then Some (cnt k) else map_of acc k)"
  by (induction chs arbitrary: acc) (auto simp: update_conv')

lemma channel_counts_keys:
  "fst ` set (foldl (\<lambda>counts channel. AList.update (ch_name channel) (cnt (ch_name channel)) counts) acc chs) =
     fst ` set acc \<union> ch_name ` set chs"
  by (induction chs arbitrary: acc) (auto simp: dom_update)

lemma channel_counts_distinct:
  "distinct (map fst acc) \<Longrightarrow>
   distinct (map fst (foldl (\<lambda>counts channel. AList.update (ch_name channel) (cnt (ch_name channel)) counts) acc chs))"
  by (induction chs arbitrary: acc) (auto simp: distinct_update)

lemma status_partition:
  "length (filter (\<lambda>d. d_status d = ''draft'') xs)
   + length (filter (\<lambda>d. d_status d = ''scheduled'') xs)
   + length (filter (\<lambda>d. d_status d = ''published'') xs)
   + length (filter (\<lambda>d. d_status d \<notin> {''draft'', ''scheduled'', ''published''}) xs)
   = length xs"
  by (induction xs) auto

lemma get_channels_names:
  "map ch_name (get_channels e db) =
     [''social'', ''email'', ''blog'', ''ads''] @ map chd_name (take 1000 (channels db))"
  by (simp add: get_channels_def default_channels_def load_channel_def comp_def)

subsection \<open>Updating a campaign\<close>

lemma optional_str_null_absent:
  "optional_str None ((b(k \<mapsto> JNull)) f) = optional_str None ((b(k := None)) f)"
  by simp

lemma validate_CampaignUpdate_null_absent:
  "validate_CampaignUpdate (b(k \<mapsto> JNull)) = validate_CampaignUpdate (b(k := None))"
  unfolding validate_CampaignUpdate_def optional_str_null_absent ..

lemma validate_all_null:
  "validate_CampaignUpdate all_null_body =
     Inr \<lparr>cu_title = None, cu_description = None, cu_channel = None, cu_status = None,
          cu_date = None, cu_time = None, cu_color = None\<rparr>"
  by (simp add: validate_CampaignUpdate_def all_null_body_def and_then_def)

lemma set_update_data_keeps_optional:
  "d_description d \<noteq> None \<Longrightarrow> d_description (set_update_data input now d) \<noteq> None"
  "d_time d \<noteq> None \<Longrightarrow> d_time (set_update_data input now d) \<noteq> None"
  by (auto simp: set_update_data_def split: option.splits)

lemma set_update_data_nothing:
  "set_update_data \<lparr>cu_title = None, cu_description = None, cu_channel = None, cu_status = None,
          cu_date = None, cu_time = None, cu_color = None\<rparr> now d = d\<lparr>d_updated_at := now\<rparr>"
  by (simp add: set_update_data_def)

lemma update_campaign_found:
  assumes found: "find_one (\<lambda>d. d_id d = campaign_id) (campaigns db) = Some d"
  shows "\<exists>i<length (campaigns db). campaigns db ! i = d \<and>
     update_campaign e campaign_id input db =
       (Inr (load_campaign (set_update_data input (isoformat (utcnow e 0)) d)),
        db\<lparr>campaigns := (campaigns db)[i := set_update_data input (isoformat (utcnow e 0)) d]\<rparr>)
     \<and> find_one (\<lambda>d. d_id d = campaign_id)
          ((campaigns db)[i := set_update_data input (isoformat (utcnow e 0)) d]) =
         Some (set_update_data input (isoformat (utcnow e 0)) d)"
proof -
  let ?q = "\<lambda>d. d_id d = campaign_id"
  let ?upd = "set_update_data input (isoformat (utcnow e 0))"
  from found have "d_id d = campaign_id" by (rule find_one_holds)
  then have same_id: "?q (?upd d)" by (simp add: set_update_data_def)
  from update_one_first[OF found, of ?upd] obtain i where
    i: "i < length (campaigns db)" "campaigns db ! i = d"
      "update_one ?q ?upd (campaigns db) = (campaigns db)[i := ?upd d]"
    by blast
  have again: "find_one ?q ((campaigns db)[i := ?upd d]) = Some (?upd d)"
    using find_one_update_one[of ?q "campaigns db" d ?upd] found same_id i(3) by simp
  have "update_campaign e campaign_id input db =
      (Inr (load_campaign (?upd d)), db\<lparr>campaigns := (campaigns db)[i := ?upd d]\<rparr>)"
    using found again i(3) by (simp add: update_campaign_def)
  with i(1,2) again show ?thesis by blast
qed

lemma find_test_campaign:
  "find_one (\<lambda>d. d_id d = ''id-3'') (campaigns busy_db) = Some test_campaign_doc"
  by (simp add: busy_db_value find_one_def test_campaign_doc_def)


subsection \<open>Stored channels are custom channels\<close>

lemma api_keeps_custom:
  assumes "list_all (\<lambda>d. \<not> chd_is_default d) (channels db)"
  shows "list_all (\<lambda>d. \<not> chd_is_default d) (channels (snd (api e r db)))"
proof (cases r)
  case (PostCampaigns b)
  then show ?thesis using assms
    by (auto simp: respond_def create_campaign_def Let_def split: sum.splits)
next
  case (PutCampaign cid b)
  then show ?thesis using assms
    by (auto simp: respond_def update_campaign_def Let_def split: sum.splits option.splits)
next
  case (DeleteCampaign cid)
  then show ?thesis using assms
    by (auto simp: respond_def delete_campaign_def split: prod.splits)
next
  case (PostChannels b)
  then show ?thesis using assms
    by (auto simp: respond_def create_channel_def new_Channel_def channel_doc_def insert_one_def
        Let_def split: sum.splits)
next
  case (DeleteChannel cid)
  have "set (fst (delete_one (\<lambda>d. chd_id d = cid) (channels db))) \<subseteq> set (channels db)"
    by (rule delete_one_subset)
  with assms have
    "list_all (\<lambda>d. \<not> chd_is_default d) (fst (delete_one (\<lambda>d. chd_id d = cid) (channels db)))"
    by (auto simp: list_all_iff)
  with DeleteChannel assms show ?thesis
    by (auto simp: respond_def delete_channel_def Let_def split: option.splits)
qed (use assms in simp_all)

lemma run_keeps_custom:
  "list_all (\<lambda>d. \<not> chd_is_default d) (channels db) \<Longrightarrow>
   list_all (\<lambda>d. \<not> chd_is_default d) (channels (run reqs db))"
proof (induction reqs arbitrary: db)
  case Nil
  then show ?case by simp
next
  case (Cons a reqs)
  obtain e r where a: "a = (e, r)" by (cases a)
  from Cons.prems have "list_all (\<lambda>d. \<not> chd_is_default d) (channels (snd (api e r db)))"
    by (rule api_keeps_custom)
  then show ?case unfolding a by (simp add: Cons.IH)
qed

lemma post_channels_result:
  "api e (PostChannels b) db = (Inr r, db') \<Longrightarrow>
   \<exists>input. validate_ChannelCreate b = Inr input \<and> r = OneChannel (new_Channel e input)
     \<and> db' = db\<lparr>channels := channels db @ [channel_doc (new_Channel e input)]\<rparr>"
  by (auto simp: respond_def create_channel_def insert_one_def Let_def split: sum.splits)

subsection \<open>Claims\<close>

text \<open>
  C1 (not what the code does). The claim: a create request on a default channel that supplies no
  colour succeeds, with the colour of the channel. In the code \<^verbatim>\<open>CampaignCreate.color\<close> is a
  required field: every body without the key \<^verbatim>\<open>color\<close> is rejected by validation, and nothing
  is stored.
\<close>

theorem create_without_color_is_rejected:
  "api e (PostCampaigns (b(''color'' := None))) db = (Inl RequestValidationError, db)"
  by (simp add: validate_CampaignCreate_no_color)

text \<open>
  C2 (not what the code does). The claim: deleting one of the ids social, email, blog, ads fails
  with 400, "Cannot delete default channels". The default channels are not stored, so the
  lookup of line 195 finds nothing and the handler answers 404 before it reaches the
  \<^verbatim>\<open>is_default\<close> test.
\<close>

theorem delete_default_channel_not_found:
  "delete_channel ''social'' empty_db = (Inl (HTTPException 404 ''Channel not found''), empty_db)
   \<and> delete_channel ''email'' empty_db = (Inl (HTTPException 404 ''Channel not found''), empty_db)
   \<and> delete_channel ''blog'' empty_db = (Inl (HTTPException 404 ''Channel not found''), empty_db)
   \<and> delete_channel ''ads'' empty_db = (Inl (HTTPException 404 ''Channel not found''), empty_db)"
  by (simp add: delete_channel_def find_one_def empty_db_def)

text \<open>
  C3 (not what the code does). The claim: an update that supplies a new channel sets the colour
  to that of the new channel. The update of \<^verbatim>\<open>test_update_campaign\<close>, on a campaign of the
  channel social, moves it to email and leaves the colour of social.
\<close>

theorem update_channel_keeps_color:
  "fst (api (env_at ''id-5'' 5000) (PutCampaign ''id-3'' test_update_body) busy_db) =
     Inr (OneCampaign
       \<lparr>c_id = ''id-3'', c_title = ''Updated Test Campaign'',
        c_description = Some ''Test campaign description'', c_channel = ''email'',
        c_status = ''scheduled'', c_date = ''2025-01-01'', c_time = Some ''10:00'',
        c_color = ''#FF6B6B'', c_created_at = 3000, c_updated_at = 5000\<rparr>)"
  by (simp add: busy_db_value example_defs update_campaign_def find_one_def
      set_update_data_def load_campaign_def)

text \<open>
  C4. Let \<open>channel_id\<close> find the stored channel \<open>ch\<close>, a custom one, and let \<open>N\<close> be the number
  of campaigns whose channel is the name of \<open>ch\<close>. If \<open>N > 0\<close>, \<open>delete_channel\<close> fails with 400,
  its message is "Cannot delete channel. ", the decimal numeral of \<open>N\<close>, " campaigns are using
  it", and the database is unchanged. If \<open>N = 0\<close>, it removes \<open>ch\<close> and acknowledges.
\<close>

theorem delete_custom_channel:
  assumes "find_one (\<lambda>d. chd_id d = channel_id) (channels db) = Some ch"
    and "\<not> chd_is_default ch"
  shows "(0 < length (filter (\<lambda>d. d_channel d = chd_name ch) (campaigns db)) \<longrightarrow>
            (\<exists>ds. delete_channel channel_id db =
                     (Inl (HTTPException 400
                        (''Cannot delete channel. '' @ ds @ '' campaigns are using it'')), db)
                 \<and> is_decimal_of ds
                     (length (filter (\<lambda>d. d_channel d = chd_name ch) (campaigns db)))))
       \<and> (length (filter (\<lambda>d. d_channel d = chd_name ch) (campaigns db)) = 0 \<longrightarrow>
            delete_channel channel_id db =
              (Inr ''Channel deleted successfully'',
               db\<lparr>channels := remove1 ch (channels db)\<rparr>))"
proof (intro conjI impI)
  let ?N = "length (filter (\<lambda>d. d_channel d = chd_name ch) (campaigns db))"
  assume used: "0 < ?N"
  with assms have "delete_channel channel_id db =
      (Inl (HTTPException 400
         (''Cannot delete channel. '' @ str_nat ?N @ '' campaigns are using it'')), db)"
    by (simp add: delete_channel_def count_documents_def)
  moreover from used have "is_decimal_of (str_nat ?N) ?N"
    by (rule str_nat_is_decimal)
  ultimately show "\<exists>ds. delete_channel channel_id db =
                     (Inl (HTTPException 400
                        (''Cannot delete channel. '' @ ds @ '' campaigns are using it'')), db)
                 \<and> is_decimal_of ds ?N"
    by blast
next
  assume "length (filter (\<lambda>d. d_channel d = chd_name ch) (campaigns db)) = 0"
  with assms show "delete_channel channel_id db =
              (Inr ''Channel deleted successfully'',
               db\<lparr>channels := remove1 ch (channels db)\<rparr>)"
    by (simp add: delete_channel_def count_documents_def delete_one_found)
qed

theorem delete_custom_channel_witness:
  "find_one (\<lambda>d. chd_id d = ''id-1'') (channels busy_db) = Some podcast_doc
   \<and> \<not> chd_is_default podcast_doc
   \<and> length (filter (\<lambda>d. d_channel d = chd_name podcast_doc) (campaigns busy_db)) = 2
   \<and> delete_channel ''id-1'' busy_db =
       (Inl (HTTPException 400 ''Cannot delete channel. 2 campaigns are using it''), busy_db)
   \<and> is_decimal_of ''2'' 2
   \<and> find_one (\<lambda>d. chd_id d = ''id-1'') (channels idle_db) = Some podcast_doc
   \<and> length (filter (\<lambda>d. d_channel d = chd_name podcast_doc) (campaigns idle_db)) = 0
   \<and> delete_channel ''id-1'' idle_db = (Inr ''Channel deleted successfully'', empty_db)"
proof -
  have found_busy: "find_one (\<lambda>d. chd_id d = ''id-1'') (channels busy_db) = Some podcast_doc"
    by (simp add: busy_db_value find_one_def podcast_doc_def)
  have found_idle: "find_one (\<lambda>d. chd_id d = ''id-1'') (channels idle_db) = Some podcast_doc"
    by (simp add: idle_db_value find_one_def podcast_doc_def)
  have custom: "\<not> chd_is_default podcast_doc"
    by (simp add: podcast_doc_def)
  have two: "length (filter (\<lambda>d. d_channel d = chd_name podcast_doc) (campaigns busy_db)) = 2"
    by (simp add: busy_db_value podcast_doc_def)
  have none: "length (filter (\<lambda>d. d_channel d = chd_name podcast_doc) (campaigns idle_db)) = 0"
    by (simp add: idle_db_value)
  from delete_custom_channel[OF found_busy custom] two obtain ds where
    refused: "delete_channel ''id-1'' busy_db =
       (Inl (HTTPException 400 (''Cannot delete channel. '' @ ds @ '' campaigns are using it'')),
        busy_db)"
    and numeral: "is_decimal_of ds 2"
    by auto
  from numeral have "ds = ''2''"
    by (rule is_decimal_of_unique) (simp add: is_decimal_of_def decimal_digit_def)
  with refused have busy: "delete_channel ''id-1'' busy_db =
       (Inl (HTTPException 400 ''Cannot delete channel. 2 campaigns are using it''), busy_db)"
    by simp
  have two_numeral: "is_decimal_of ''2'' 2"
    by (simp add: is_decimal_of_def decimal_digit_def)
  from delete_custom_channel[OF found_idle custom] none
  have idle: "delete_channel ''id-1'' idle_db = (Inr ''Channel deleted successfully'', empty_db)"
    by (simp add: idle_db_value empty_db_def)
  from found_busy custom two busy two_numeral found_idle none idle show ?thesis by blast
qed

text \<open>
  C5. \<open>get_stats\<close>: \<open>total\<close> is the number of campaigns; \<open>by_status\<close> has the keys draft,
  scheduled and published, each with the number of campaigns of that status, and their sum
  with the number of campaigns of any other status is \<open>total\<close>; \<open>by_channel\<close> has one entry for
  each name in the list of \<open>get_channels\<close> (the four default names and the names of the
  first 1000 stored channels) and no other, each with the number of campaigns whose channel is
  that name.
\<close>

theorem get_stats_counts:
  "total (get_stats e db) = length (campaigns db)
   \<and> by_status (get_stats e db) =
       [(''draft'', length (filter (\<lambda>d. d_status d = ''draft'') (campaigns db))),
        (''scheduled'', length (filter (\<lambda>d. d_status d = ''scheduled'') (campaigns db))),
        (''published'', length (filter (\<lambda>d. d_status d = ''published'') (campaigns db)))]
   \<and> sum_list (map snd (by_status (get_stats e db)))
       + length (filter (\<lambda>d. d_status d \<notin> {''draft'', ''scheduled'', ''published''}) (campaigns db))
       = total (get_stats e db)
   \<and> sum_list (map snd (by_status (get_stats e db))) \<le> total (get_stats e db)
   \<and> distinct (map fst (by_channel (get_stats e db)))
   \<and> set (map fst (by_channel (get_stats e db))) = set (map ch_name (get_channels e db))
   \<and> set (map fst (by_channel (get_stats e db))) =
       {''social'', ''email'', ''blog'', ''ads''} \<union> set (map chd_name (take 1000 (channels db)))
   \<and> map_of (by_channel (get_stats e db)) name =
       (if name \<in> set (map ch_name (get_channels e db))
        then Some (length (filter (\<lambda>d. d_channel d = name) (campaigns db)))
        else None)"
proof -
  let ?cnt = "\<lambda>n. count_documents (\<lambda>d. d_channel d = n) (campaigns db)"
  have by_channel:
    "by_channel (get_stats e db) =
       foldl (\<lambda>counts channel. AList.update (ch_name channel) (?cnt (ch_name channel)) counts)
         [] (get_channels e db)"
    by (simp add: get_stats_def Let_def)
  have 1: "total (get_stats e db) = length (campaigns db)"
    by (simp add: get_stats_def Let_def count_documents_def)
  have 2: "by_status (get_stats e db) =
       [(''draft'', length (filter (\<lambda>d. d_status d = ''draft'') (campaigns db))),
        (''scheduled'', length (filter (\<lambda>d. d_status d = ''scheduled'') (campaigns db))),
        (''published'', length (filter (\<lambda>d. d_status d = ''published'') (campaigns db)))]"
    by (simp add: get_stats_def Let_def count_documents_def)
  have 3: "sum_list (map snd (by_status (get_stats e db)))
       + length (filter (\<lambda>d. d_status d \<notin> {''draft'', ''scheduled'', ''published''}) (campaigns db))
       = total (get_stats e db)"
    unfolding 1 2 using status_partition[of "campaigns db"] by simp
  then have 4: "sum_list (map snd (by_status (get_stats e db))) \<le> total (get_stats e db)"
    by linarith
  have 5: "distinct (map fst (by_channel (get_stats e db)))"
    unfolding by_channel by (rule channel_counts_distinct) simp
  have 6: "set (map fst (by_channel (get_stats e db))) = set (map ch_name (get_channels e db))"
    unfolding by_channel using channel_counts_keys[of ?cnt "[]" "get_channels e db"] by simp
  have 7: "map_of (by_channel (get_stats e db)) name =
       (if name \<in> set (map ch_name (get_channels e db))
        then Some (length (filter (\<lambda>d. d_channel d = name) (campaigns db)))
        else None)"
    unfolding by_channel
    using channel_counts_map_of[of ?cnt "[]" "get_channels e db" name]
    by (simp add: count_documents_def)
  have 8: "set (map fst (by_channel (get_stats e db))) =
       {''social'', ''email'', ''blog'', ''ads''} \<union> set (map chd_name (take 1000 (channels db)))"
    unfolding 6 get_channels_names by auto
  from 1 2 3 4 5 6 7 8 show ?thesis by blast
qed



text \<open>
  C7. A campaign created with an id that no stored campaign has is returned, equal in every
  field (its \<open>updated_at\<close> too), by \<open>get_campaign\<close> on that id right after.
\<close>

theorem create_then_get_campaign:
  assumes "uuid4 e \<notin> set (map d_id (campaigns db))"
  shows "fst (create_campaign e input db) = Inr (new_Campaign e input)
       \<and> c_id (new_Campaign e input) = uuid4 e
       \<and> get_campaign (uuid4 e) (snd (create_campaign e input db)) =
           fst (create_campaign e input db)"
proof -
  have "find_one (\<lambda>d. d_id d = uuid4 e) (campaigns db) = None"
    using assms by (force simp: find_one_None_iff)
  moreover have "d_id (campaign_doc (new_Campaign e input)) = uuid4 e"
    by (simp add: campaign_doc_def new_Campaign_def)
  ultimately have
    "find_one (\<lambda>d. d_id d = uuid4 e) (campaigns db @ [campaign_doc (new_Campaign e input)]) =
       Some (campaign_doc (new_Campaign e input))"
    by (simp add: find_one_append) (simp add: find_one_def)
  then show ?thesis
    by (simp add: create_campaign_def get_campaign_def insert_one_def Let_def
        load_campaign_doc new_Campaign_def)
qed

theorem create_then_get_campaign_witness:
  "uuid4 (env_at ''id-9'' 9000) \<notin> set (map d_id (campaigns busy_db))
   \<and> get_campaign ''id-9''
       (snd (create_campaign (env_at ''id-9'' 9000)
          \<lparr>cc_title = ''Launch'', cc_description = None, cc_channel = ''ads'',
           cc_status = ''scheduled'', cc_date = ''2025-03-01'', cc_time = Some ''09:00'',
           cc_color = ''#1A535C''\<rparr> busy_db)) =
     Inr \<lparr>c_id = ''id-9'', c_title = ''Launch'', c_description = None, c_channel = ''ads'',
          c_status = ''scheduled'', c_date = ''2025-03-01'', c_time = Some ''09:00'',
          c_color = ''#1A535C'', c_created_at = 9000, c_updated_at = 9001\<rparr>"
proof -
  have fresh: "uuid4 (env_at ''id-9'' 9000) \<notin> set (map d_id (campaigns busy_db))"
    by (simp add: busy_db_value env_at_def)
  from create_then_get_campaign[OF fresh] fresh show ?thesis
    by (simp add: new_Campaign_def env_at_def)
qed

text \<open>
  C8. \<open>GET /templates\<close> answers with the same four templates, ids 1 to 4, after any sequence
  of requests from any database, and leaves the database as it is.
\<close>

theorem templates_fixed:
  "api e GetTemplates (run reqs db) =
     (Inr (TemplateList
       [\<lparr>t_id = ''1'', t_name = ''Product Launch'',
         t_description = ''Comprehensive campaign for new product launches'',
         t_channel = ''social'', t_default_content = ''Introducing our latest innovation!''\<rparr>,
        \<lparr>t_id = ''2'', t_name = ''Newsletter'',
         t_description = ''Weekly or monthly newsletter template'',
         t_channel = ''email'', t_default_content = ''Your weekly update from our team''\<rparr>,
        \<lparr>t_id = ''3'', t_name = ''Blog Post'',
         t_description = ''SEO-optimized blog content strategy'',
         t_channel = ''blog'', t_default_content = ''Expert insights on...''\<rparr>,
        \<lparr>t_id = ''4'', t_name = ''Ad Campaign'',
         t_description = ''Paid advertising campaign template'',
         t_channel = ''ads'', t_default_content = ''Limited time offer!''\<rparr>]),
      run reqs db)
   \<and> length get_templates = 4
   \<and> map t_id get_templates = [''1'', ''2'', ''3'', ''4'']"
  by (simp add: get_templates_def)

text \<open>
  C9. Whatever the body of \<open>POST /channels\<close> holds, the channel it stores has the generated
  id and \<open>is_default = False\<close>. So in every database that a sequence of requests reaches from
  the empty one no stored channel is a default channel, and \<open>delete_channel\<close> never answers
  "Cannot delete default channels".
\<close>

theorem created_channels_are_custom:
  "(api e (PostChannels b) db = (Inr r, db') \<longrightarrow>
      (\<exists>ch. r = OneChannel ch \<and> ch_id ch = uuid4 e \<and> \<not> ch_is_default ch
         \<and> channels db' = channels db @ [channel_doc ch]
         \<and> chd_id (channel_doc ch) = uuid4 e \<and> \<not> chd_is_default (channel_doc ch)))
   \<and> list_all (\<lambda>d. \<not> chd_is_default d) (channels (run reqs empty_db))
   \<and> fst (delete_channel channel_id (run reqs empty_db)) \<noteq>
       Inl (HTTPException 400 ''Cannot delete default channels'')"
proof (intro conjI impI)
  assume "api e (PostChannels b) db = (Inr r, db')"
  from post_channels_result[OF this] obtain input where
    "r = OneChannel (new_Channel e input)"
    "db' = db\<lparr>channels := channels db @ [channel_doc (new_Channel e input)]\<rparr>"
    by blast
  then show "\<exists>ch. r = OneChannel ch \<and> ch_id ch = uuid4 e \<and> \<not> ch_is_default ch
         \<and> channels db' = channels db @ [channel_doc ch]
         \<and> chd_id (channel_doc ch) = uuid4 e \<and> \<not> chd_is_default (channel_doc ch)"
    by (intro exI[of _ "new_Channel e input"]) (simp add: new_Channel_def channel_doc_def)
next
  show inv: "list_all (\<lambda>d. \<not> chd_is_default d) (channels (run reqs empty_db))"
    by (rule run_keeps_custom) (simp add: empty_db_def)
  show "fst (delete_channel channel_id (run reqs empty_db)) \<noteq>
       Inl (HTTPException 400 ''Cannot delete default channels'')"
  proof (cases "find_one (\<lambda>d. chd_id d = channel_id) (channels (run reqs empty_db))")
    case None
    then show ?thesis by (simp add: delete_channel_def)
  next
    case (Some ch)
    then have "ch \<in> set (channels (run reqs empty_db))"
      by (auto simp: find_one_Some_iff)
    with inv have "\<not> chd_is_default ch" by (simp add: list_all_iff)
    with Some show ?thesis by (simp add: delete_channel_def Let_def)
  qed
qed

theorem created_channels_are_custom_witness:
  "api (env_at ''id-1'' 1000) (PostChannels podcast_channel_body) empty_db =
     (Inr (OneChannel \<lparr>ch_id = ''id-1'', ch_name = ''podcast'', ch_label = ''Podcast'',
        ch_color = ''#123456'', ch_is_default = False, ch_created_at = 1000\<rparr>), idle_db)
   \<and> podcast_channel_body ''is_default'' = Some (JBool True)
   \<and> podcast_channel_body ''id'' = Some (JStr ''social'')
   \<and> channels idle_db = [podcast_doc]
   \<and> \<not> chd_is_default podcast_doc
   \<and> fst (delete_channel ''id-1'' idle_db) \<noteq>
       Inl (HTTPException 400 ''Cannot delete default channels'')"
proof -
  have posted: "api (env_at ''id-1'' 1000) (PostChannels podcast_channel_body) empty_db =
     (Inr (OneChannel \<lparr>ch_id = ''id-1'', ch_name = ''podcast'', ch_label = ''Podcast'',
        ch_color = ''#123456'', ch_is_default = False, ch_created_at = 1000\<rparr>), idle_db)"
    by (simp add: idle_db_def example_defs)
  have reached: "idle_db = run [(env_at ''id-1'' 1000, PostChannels podcast_channel_body)] empty_db"
    by (simp add: idle_db_def)
  from created_channels_are_custom[of "env_at ''id-1'' 1000" podcast_channel_body empty_db
      "OneChannel \<lparr>ch_id = ''id-1'', ch_name = ''podcast'', ch_label = ''Podcast'',
        ch_color = ''#123456'', ch_is_default = False, ch_created_at = 1000\<rparr>" idle_db
      "[(env_at ''id-1'' 1000, PostChannels podcast_channel_body)]" "''id-1''"]
    posted
  show ?thesis
    unfolding reached[symmetric]
    by (simp add: idle_db_value podcast_doc_def podcast_channel_body_def channel_doc_def
        isoformat_def env_at_def)
qed

text \<open>
  C10. An update body that gives a key as null is handled as the body without that key. An
  update never turns a stored description or time into null. The body with every field null,
  on an existing campaign, succeeds and changes \<open>updated_at\<close> only.
\<close>

theorem update_null_is_absent:
  "api e (PutCampaign campaign_id (b(k \<mapsto> JNull))) db =
     api e (PutCampaign campaign_id (b(k := None))) db
   \<and> (find_one (\<lambda>d. d_id d = campaign_id) (campaigns db) = Some d \<longrightarrow>
        api e (PutCampaign campaign_id b) db = (Inr (OneCampaign c), db') \<longrightarrow>
          (d_description d \<noteq> None \<longrightarrow> c_description c \<noteq> None)
          \<and> (d_time d \<noteq> None \<longrightarrow> c_time c \<noteq> None))
   \<and> (find_one (\<lambda>d. d_id d = campaign_id) (campaigns db) = Some d \<longrightarrow>
        (\<exists>i<length (campaigns db). campaigns db ! i = d \<and>
           api e (PutCampaign campaign_id all_null_body) db =
             (Inr (OneCampaign (load_campaign (d\<lparr>d_updated_at := isoformat (utcnow e 0)\<rparr>))),
              db\<lparr>campaigns := (campaigns db)[i := d\<lparr>d_updated_at := isoformat (utcnow e 0)\<rparr>]\<rparr>)))"
proof (intro conjI impI)
  show "api e (PutCampaign campaign_id (b(k \<mapsto> JNull))) db =
     api e (PutCampaign campaign_id (b(k := None))) db"
    by (simp add: validate_CampaignUpdate_null_absent)
next
  assume found: "find_one (\<lambda>d. d_id d = campaign_id) (campaigns db) = Some d"
    and ok: "api e (PutCampaign campaign_id b) db = (Inr (OneCampaign c), db')"
  from ok obtain input where input: "validate_CampaignUpdate b = Inr input"
    and upd: "respond OneCampaign (update_campaign e campaign_id input db) = (Inr (OneCampaign c), db')"
    by (auto split: sum.splits)
  from update_campaign_found[OF found, of e input] upd
  have c: "c = load_campaign (set_update_data input (isoformat (utcnow e 0)) d)"
    by (auto simp: respond_def)
  {
    assume "d_description d \<noteq> None"
    then show "c_description c \<noteq> None"
      unfolding c using set_update_data_keeps_optional(1)[of d input]
      by (simp add: load_campaign_def)
  }
  {
    assume "d_time d \<noteq> None"
    then show "c_time c \<noteq> None"
      unfolding c using set_update_data_keeps_optional(2)[of d input]
      by (simp add: load_campaign_def)
  }
next
  assume found: "find_one (\<lambda>d. d_id d = campaign_id) (campaigns db) = Some d"
  from update_campaign_found[OF found, of e
      "\<lparr>cu_title = None, cu_description = None, cu_channel = None, cu_status = None,
          cu_date = None, cu_time = None, cu_color = None\<rparr>"]
  show "\<exists>i<length (campaigns db). campaigns db ! i = d \<and>
           api e (PutCampaign campaign_id all_null_body) db =
             (Inr (OneCampaign (load_campaign (d\<lparr>d_updated_at := isoformat (utcnow e 0)\<rparr>))),
              db\<lparr>campaigns := (campaigns db)[i := d\<lparr>d_updated_at := isoformat (utcnow e 0)\<rparr>]\<rparr>)"
    by (auto simp: validate_all_null set_update_data_nothing respond_def)
qed

theorem update_null_is_absent_witness:
  "find_one (\<lambda>d. d_id d = ''id-3'') (campaigns busy_db) = Some test_campaign_doc
   \<and> fst (api (env_at ''id-5'' 5000) (PutCampaign ''id-3'' all_null_body) busy_db) =
       Inr (OneCampaign
         \<lparr>c_id = ''id-3'', c_title = ''Test Campaign 1'',
          c_description = Some ''Test campaign description'', c_channel = ''social'',
          c_status = ''draft'', c_date = ''2025-01-01'', c_time = Some ''10:00'',
          c_color = ''#FF6B6B'', c_created_at = 3000, c_updated_at = 5000\<rparr>)
   \<and> api (env_at ''id-5'' 5000)
        (PutCampaign ''id-3'' (test_update_body(''description'' \<mapsto> JNull))) busy_db =
      api (env_at ''id-5'' 5000)
        (PutCampaign ''id-3'' (test_update_body(''description'' := None))) busy_db"
proof -
  from update_null_is_absent[of "env_at ''id-5'' 5000" "''id-3''" test_update_body
      "''description''" busy_db test_campaign_doc]
    find_test_campaign
  obtain i where
    same: "api (env_at ''id-5'' 5000)
        (PutCampaign ''id-3'' (test_update_body(''description'' \<mapsto> JNull))) busy_db =
      api (env_at ''id-5'' 5000)
        (PutCampaign ''id-3'' (test_update_body(''description'' := None))) busy_db"
    and nulls: "api (env_at ''id-5'' 5000) (PutCampaign ''id-3'' all_null_body) busy_db =
       (Inr (OneCampaign (load_campaign
          (test_campaign_doc\<lparr>d_updated_at := isoformat (utcnow (env_at ''id-5'' 5000) 0)\<rparr>))),
        busy_db\<lparr>campaigns := (campaigns busy_db)
          [i := test_campaign_doc\<lparr>d_updated_at := isoformat (utcnow (env_at ''id-5'' 5000) 0)\<rparr>]\<rparr>)"
    by blast
  from nulls have "fst (api (env_at ''id-5'' 5000) (PutCampaign ''id-3'' all_null_body) busy_db) =
       Inr (OneCampaign
         \<lparr>c_id = ''id-3'', c_title = ''Test Campaign 1'',
          c_description = Some ''Test campaign description'', c_channel = ''social'',
          c_status = ''draft'', c_date = ''2025-01-01'', c_time = Some ''10:00'',
          c_color = ''#FF6B6B'', c_created_at = 3000, c_updated_at = 5000\<rparr>)"
    by (simp add: load_campaign_def test_campaign_doc_def env_at_def isoformat_def)
  with same find_test_campaign show ?thesis by blast
qed

end
